theory Spec2Isabelle
  imports Complex_Main
begin

text \<open>
  A model of the multiple hypothesis tracker: the constant-velocity corner model
  (\<^verbatim>\<open>CONSTVEL_STATE\<close>, \<^verbatim>\<open>CONSTVEL_MDL\<close>), the node classes of the track trees
  (\<^verbatim>\<open>MDL_ROOT_T_HYPO\<close> ... \<^verbatim>\<open>MDL_END_T_HYPO\<close>), and the engine (\<^verbatim>\<open>MHT\<close>, \<^verbatim>\<open>MDL_MHT\<close>,
  \<^verbatim>\<open>CORNER_TRACK_MHT\<close>) up to the group steps of a scan. Objects that the source reaches
  through pointers (reports, nodes, trees) carry an address or an id, and a function that
  writes through a pointer returns the object it has written.
\<close>

section \<open>Numeric kernel\<close>

text \<open>
  The C++ sources compute in \<^verbatim>\<open>double\<close>. Throughout this development a \<^verbatim>\<open>double\<close> is
  idealised as a real number: the definitions follow the arithmetic expressions of the
  source operation by operation, but rounding, overflow, infinities and NaN are not
  represented. Statements whose truth depends on rounding are outside this model.
\<close>

text \<open>
  Modelled from the spec: the \<^verbatim>\<open>MATRIX\<close> class (the numeric kernel) is not among the
  sources. A matrix is a dense row-major list of rows, with the operations the model
  code uses: multiplication (also non-square), transpose, addition, subtraction,
  scalar multiplication, and determinant and inverse of a 2 by 2 matrix.
\<close>

type_synonym MATRIX = "real list list"

definition m_trans :: "MATRIX \<Rightarrow> MATRIX" where
  "m_trans A = (case A of [] \<Rightarrow> [] | r # _ \<Rightarrow> map (\<lambda>j. map (\<lambda>row. row ! j) A) [0..<length r])"

definition dot :: "real list \<Rightarrow> real list \<Rightarrow> real" where
  "dot u v = sum_list (map2 (*) u v)"

definition m_mul :: "MATRIX \<Rightarrow> MATRIX \<Rightarrow> MATRIX" where
  "m_mul A B = map (\<lambda>row. map (\<lambda>col. dot row col) (m_trans B)) A"

definition m_add :: "MATRIX \<Rightarrow> MATRIX \<Rightarrow> MATRIX" where
  "m_add A B = map2 (map2 (+)) A B"

definition m_sub :: "MATRIX \<Rightarrow> MATRIX \<Rightarrow> MATRIX" where
  "m_sub A B = map2 (map2 (-)) A B"

definition m_scale :: "MATRIX \<Rightarrow> real \<Rightarrow> MATRIX" where
  "m_scale A c = map (map (\<lambda>a. a * c)) A"

definition m_det :: "MATRIX \<Rightarrow> real" where
  "m_det S = (S ! 0 ! 0) * (S ! 1 ! 1) - (S ! 0 ! 1) * (S ! 1 ! 0)"

definition m_inv :: "MATRIX \<Rightarrow> MATRIX" where
  "m_inv S = [[ (S ! 1 ! 1) / m_det S, - (S ! 0 ! 1) / m_det S],
              [- (S ! 1 ! 0) / m_det S,  (S ! 0 ! 0) / m_det S]]"

text \<open>Element access \<^verbatim>\<open>M(i)\<close> on a column vector and \<^verbatim>\<open>M()\<close> on a 1 by 1 matrix.\<close>

definition m_at :: "MATRIX \<Rightarrow> nat \<Rightarrow> real" where
  "m_at M i = M ! i ! 0"

definition m_scalar :: "MATRIX \<Rightarrow> real" where
  "m_scalar M = M ! 0 ! 0"

section \<open>Reports, motion states and the constant-velocity model\<close>

text \<open>
  Modelled from the spec: the header declaring \<^verbatim>\<open>Texture_t\<close>, \<^verbatim>\<open>CONSTPOS_REPORT\<close>,
  \<^verbatim>\<open>CONSTVEL_STATE\<close> and \<^verbatim>\<open>CONSTVEL_MDL\<close> is not among the sources. The fields below
  are the ones the member functions in the sources read and write and the ones the
  constructor calls in the sources pass; the getters return the field of the same name.
  A texture descriptor is the 25 values of a 5 by 5 grid in row-major order.
\<close>

type_synonym Texture_t = "real list"

text \<open>
  A \<^verbatim>\<open>REPORT\<close> lives on one of the engine's intrusive report lists; track hypotheses point
  to it. \<open>r_addr\<close> is the identity of the object (its address), \<open>m_rowNum\<close> and
  \<open>m_groupId\<close> are the members of the base class \<^verbatim>\<open>REPORT\<close>, the others are the arguments
  of the \<^verbatim>\<open>CONSTPOS_REPORT\<close> constructor.
\<close>

record REPORT =
  r_addr :: nat
  m_rowNum :: int
  m_groupId :: int
  m_falarmLogLikelihood :: real
  r_x :: real
  r_y :: real
  m_textureInfo :: Texture_t
  m_frameNo :: int
  m_cornerID :: nat

definition getZ :: "REPORT \<Rightarrow> MATRIX" where
  "getZ r = [[r_x r], [r_y r]]"

record CONSTVEL_MDL =
  m_startLogLikelihood :: real
  m_lambda_x :: real
  m_skipLogLikelihood :: real
  m_detectLogLikelihood :: real
  m_maxDistance :: real
  m_processVariance :: real
  m_intensityVariance :: real
  m_intensityThreshold :: real
  m_stateVariance :: real
  m_R :: MATRIX
  m_startP :: MATRIX

text \<open>
  The block of a state that \<^verbatim>\<open>CONSTVEL_STATE::setup\<close> fills in: \<^verbatim>\<open>m_ds\<close>,
  \<^verbatim>\<open>m_logLikelihoodCoef\<close>, \<^verbatim>\<open>m_Sinv\<close>, \<^verbatim>\<open>m_W\<close>, \<^verbatim>\<open>m_nextP\<close> and \<^verbatim>\<open>m_x1\<close>. In a state, \<open>m_setup = None\<close> stands for
  \<^verbatim>\<open>m_hasBeenSetup == 0\<close> (the pointers are not yet allocated).
\<close>

record DERIVED =
  m_ds :: real
  m_logLikelihoodCoef :: real
  m_Sinv :: MATRIX
  m_W :: MATRIX
  m_nextP :: MATRIX
  m_x1 :: MATRIX

record CONSTVEL_STATE =
  m_mdl :: CONSTVEL_MDL
  m_x :: MATRIX
  m_P :: MATRIX
  m_prevTextureInfo :: Texture_t
  m_logLikelihood :: real
  m_numSkipped :: int
  m_setup :: "DERIVED option"

text \<open>The constructor \<^verbatim>\<open>CONSTVEL_STATE(mdl, x, dx, y, dy, texture, P, logLikelihood, numSkipped)\<close>.\<close>

definition new_CONSTVEL_STATE ::
  "CONSTVEL_MDL \<Rightarrow> real \<Rightarrow> real \<Rightarrow> real \<Rightarrow> real \<Rightarrow> Texture_t \<Rightarrow> MATRIX \<Rightarrow> real \<Rightarrow> int
    \<Rightarrow> CONSTVEL_STATE" where
  "new_CONSTVEL_STATE mdl x dx y dy tex P ll n =
     \<lparr>m_mdl = mdl, m_x = [[x], [dx], [y], [dy]], m_P = P, m_prevTextureInfo = tex,
      m_logLikelihood = ll, m_numSkipped = n, m_setup = None\<rparr>"

definition getX :: "CONSTVEL_STATE \<Rightarrow> real" where "getX s = m_at (m_x s) 0"
definition getDX :: "CONSTVEL_STATE \<Rightarrow> real" where "getDX s = m_at (m_x s) 1"
definition getY :: "CONSTVEL_STATE \<Rightarrow> real" where "getY s = m_at (m_x s) 2"
definition getDY :: "CONSTVEL_STATE \<Rightarrow> real" where "getDY s = m_at (m_x s) 3"

definition setDX :: "CONSTVEL_STATE \<Rightarrow> real \<Rightarrow> CONSTVEL_STATE" where
  "setDX s v = s\<lparr>m_x := (m_x s)[1 := [v]]\<rparr>"

definition setDY :: "CONSTVEL_STATE \<Rightarrow> real \<Rightarrow> CONSTVEL_STATE" where
  "setDY s v = s\<lparr>m_x := (m_x s)[3 := [v]]\<rparr>"

subsection \<open>\<^verbatim>\<open>CONSTVEL_STATE::setup\<close>\<close>

definition LOG_NORMFACTOR :: real where
  "LOG_NORMFACTOR = 15963597 / 10000000"

definition F_of :: "real \<Rightarrow> MATRIX" where
  "F_of ds = [[1, ds, 0, 0],
             [0, 1, 0, 0],
             [0, 0, 1, ds],
             [0, 0, 0, 1]]"

definition Q_of :: "real \<Rightarrow> real \<Rightarrow> MATRIX" where
  "Q_of ds processVariance =
     (let ds2 = ds * ds; ds3 = ds2 * ds in
      m_scale [[ds3 / 3, ds2 / 2, 0, 0],
               [ds2 / 2, ds, 0, 0],
               [0, 0, ds3 / 3, ds2 / 2],
               [0, 0, ds2 / 2, ds]] processVariance)"

definition H :: MATRIX where
  "H = [[1, 0, 0, 0],
        [0, 0, 1, 0]]"

definition state_setup :: "real \<Rightarrow> MATRIX \<Rightarrow> CONSTVEL_STATE \<Rightarrow> CONSTVEL_STATE" where
  "state_setup processVariance R st =
     (if m_setup st \<noteq> None then st
      else
        let ds = 1;
            F = F_of ds;
            Q = Q_of ds processVariance;
            P1 = m_add (m_mul (m_mul F (m_P st)) (m_trans F)) Q;
            S = m_add (m_mul (m_mul H P1) (m_trans H)) R;
            coef = - (LOG_NORMFACTOR + ln (m_det S) / 2);
            Sinv = m_inv S;
            W = m_mul (m_mul P1 (m_trans H)) Sinv;
            tmp = m_mul (m_mul W S) (m_trans W);
            tmp1 = m_sub P1 tmp
        in st\<lparr>m_setup := Some \<lparr>m_ds = ds, m_logLikelihoodCoef = coef, m_Sinv = Sinv,
                               m_W = W, m_nextP = tmp1, m_x1 = m_mul F (m_x st)\<rparr>\<rparr>)"

subsection \<open>End and continue likelihoods\<close>

definition EPSILON :: real where
  "EPSILON = 1 / 100000000000000"

text \<open>
  \<^verbatim>\<open>-m / m_lambda_x\<close> negates the integer skip count and divides it as a \<^verbatim>\<open>double\<close>.
  Both functions also store their result in a member of the model that nothing reads;
  that store is left out.
\<close>

definition endProb :: "CONSTVEL_MDL \<Rightarrow> CONSTVEL_STATE \<Rightarrow> real" where
  "endProb mdl s =
     (let m = m_numSkipped s;
          p = 1 - exp (real_of_int (- m) / m_lambda_x mdl)
      in p + (if p = 0 then EPSILON else 0))"

definition getEndLogLikelihood :: "CONSTVEL_MDL \<Rightarrow> CONSTVEL_STATE \<Rightarrow> real" where
  "getEndLogLikelihood mdl s = ln (endProb mdl s)"

definition getContinueLogLikelihood :: "CONSTVEL_MDL \<Rightarrow> CONSTVEL_STATE \<Rightarrow> real" where
  "getContinueLogLikelihood mdl s = ln (1 - endProb mdl s)"

definition getSkipLogLikelihood :: "CONSTVEL_MDL \<Rightarrow> CONSTVEL_STATE \<Rightarrow> real" where
  "getSkipLogLikelihood mdl s = m_skipLogLikelihood mdl"

text \<open>Modelled from the spec: \<^verbatim>\<open>getDetectLogLikelihood\<close> is defined in the absent header;
  the detect log-likelihood is the model constant.\<close>

definition getDetectLogLikelihood :: "CONSTVEL_MDL \<Rightarrow> CONSTVEL_STATE \<Rightarrow> real" where
  "getDetectLogLikelihood mdl s = m_detectLogLikelihood mdl"

subsection \<open>\<^verbatim>\<open>CONSTVEL_MDL::getCorr\<close> (built with \<^verbatim>\<open>CORR_COEFF\<close>)\<close>

text \<open>
  \<^verbatim>\<open>HUGE\<close> is a macro of the C library, not of the repository; it is the largest
  \<^verbatim>\<open>float\<close> there.
\<close>

definition HUGE :: real where
  "HUGE = 340282347 * 10 ^ 30"

text \<open>\<^verbatim>\<open>index = width * y + x\<close> with \<^verbatim>\<open>width = 5\<close>.\<close>

definition tex_index :: "int \<Rightarrow> int \<Rightarrow> nat" where
  "tex_index y x = nat (5 * y + x)"

text \<open>The double loop \<^verbatim>\<open>for j = -1..1, for i = -1..1\<close> that accumulates into a sum.\<close>

definition loop3x3 :: "(int \<Rightarrow> int \<Rightarrow> real) \<Rightarrow> real" where
  "loop3x3 body = sum_list (map (\<lambda>j. sum_list (map (\<lambda>i. body j i) [-1, 0, 1])) [-1, 0, 1])"

definition winMean :: "Texture_t \<Rightarrow> int \<Rightarrow> int \<Rightarrow> real" where
  "winMean t ym xm = loop3x3 (\<lambda>j i. t ! tex_index (ym + j) (xm + i)) / 9"

definition winSigma :: "Texture_t \<Rightarrow> int \<Rightarrow> int \<Rightarrow> real" where
  "winSigma t ym xm =
     (let mean = winMean t ym xm;
          sigma = loop3x3 (\<lambda>j i. t ! tex_index (ym + j) (xm + i) * t ! tex_index (ym + j) (xm + i)) / 9
      in sqrt (sigma - mean * mean))"

text \<open>The centered sum of products for the offset \<open>(ym, xm)\<close>, before the division.\<close>

definition winCov :: "Texture_t \<Rightarrow> Texture_t \<Rightarrow> int \<Rightarrow> int \<Rightarrow> real" where
  "winCov st rp ym xm =
     loop3x3 (\<lambda>j i. (st ! tex_index (2 + j) (2 + i) - winMean st 2 2) *
                      (rp ! tex_index (ym + j) (xm + i) - winMean rp ym xm))"

definition corrAt :: "Texture_t \<Rightarrow> Texture_t \<Rightarrow> int \<Rightarrow> int \<Rightarrow> real" where
  "corrAt st rp ym xm =
     (let stateSigma = winSigma st 2 2;
          reportSigma = winSigma rp ym xm;
          corr = winCov st rp ym xm
      in if corr \<noteq> 0 \<or> reportSigma * stateSigma \<noteq> 0
         then corr / (9 * reportSigma * stateSigma) else 1)"

definition offsets :: "(int \<times> int) list" where
  "offsets = [(1, 1), (1, 2), (1, 3), (2, 1), (2, 2), (2, 3), (3, 1), (3, 2), (3, 3)]"

text \<open>
  One pass of the body of the \<open>(p, q)\<close> loop: the assertion on the coefficient, then the
  update of \<^verbatim>\<open>maxCorr\<close>. \<open>None\<close> is the failed assertion.
\<close>

definition corrStep :: "Texture_t \<Rightarrow> Texture_t \<Rightarrow> real option \<Rightarrow> int \<times> int \<Rightarrow> real option" where
  "corrStep st rp acc off =
     (case acc of
        None \<Rightarrow> None
      | Some maxCorr \<Rightarrow>
          (let corr = corrAt st rp (fst off) (snd off)
           in if corr \<ge> - 1 \<and> corr \<le> 1
              then Some (if corr > maxCorr then corr else maxCorr)
              else None))"

definition getCorr :: "CONSTVEL_STATE \<Rightarrow> REPORT \<Rightarrow> real option" where
  "getCorr state report =
     foldl (corrStep (m_prevTextureInfo state) (m_textureInfo report)) (Some (- HUGE)) offsets"

subsection \<open>\<^verbatim>\<open>CONSTVEL_MDL::getNextState\<close>, \<^verbatim>\<open>getNewState\<close> and \<^verbatim>\<open>beginNewStates\<close>\<close>

text \<open>
  The functions take the previous state and the report as pointers that may be null
  (\<open>None\<close>). The previous state is written through its pointer, so the model returns it
  next to the result: \<open>Some (prev', next)\<close> is a call that returns \<open>next\<close> (\<open>None\<close> for the
  null pointer) and leaves the previous state as \<open>prev'\<close>; the outer \<open>None\<close> is a call that
  does not return (a failed assertion or a null pointer that is read).
\<close>

definition getNextState ::
  "CONSTVEL_MDL \<Rightarrow> CONSTVEL_STATE option \<Rightarrow> REPORT option
     \<Rightarrow> (CONSTVEL_STATE option \<times> CONSTVEL_STATE option) option" where
  "getNextState mdl state report =
     (case state of
        None \<Rightarrow>
          (case report of
             None \<Rightarrow> None
           | Some rp \<Rightarrow>
               Some (None, Some (new_CONSTVEL_STATE mdl (r_x rp) 0 (r_y rp) 0 (m_textureInfo rp)
                                   (m_startP mdl) (m_startLogLikelihood mdl) 0)))
      | Some st0 \<Rightarrow>
          (let st = state_setup (m_processVariance mdl) (m_R mdl) st0 in
           case m_setup st of
             None \<Rightarrow> None
           | Some d \<Rightarrow>
               (case report of
                  None \<Rightarrow>
                    Some (Some st,
                          Some (new_CONSTVEL_STATE mdl (m_at (m_x1 d) 0) (m_at (m_x1 d) 1)
                                  (m_at (m_x1 d) 2) (m_at (m_x1 d) 3) (m_prevTextureInfo st)
                                  (m_nextP d) 0 (m_numSkipped st + 1)))
                | Some rp \<Rightarrow>
                    (let v = m_sub (getZ rp) (m_mul H (m_x1 d));
                         distance = m_scalar (m_mul (m_mul (m_trans v) (m_Sinv d)) v)
                     in if distance > m_maxDistance mdl then Some (Some st, None)
                        else
                          (case getCorr st rp of
                             None \<Rightarrow> None
                           | Some intDistance \<Rightarrow>
                               if \<not> (intDistance > m_intensityThreshold mdl)
                               then Some (Some st, None)
                               else
                                 (let new_m_x = m_add (m_x1 d) (m_mul (m_W d) v)
                                  in Some (Some st,
                                           Some (new_CONSTVEL_STATE mdl (m_at new_m_x 0)
                                                   (m_at new_m_x 1) (m_at new_m_x 2)
                                                   (m_at new_m_x 3) (m_textureInfo rp) (m_nextP d)
                                                   (m_logLikelihoodCoef d - distance / 2) 0))))))))"

definition getNewState ::
  "CONSTVEL_MDL \<Rightarrow> int \<Rightarrow> CONSTVEL_STATE option \<Rightarrow> REPORT option
     \<Rightarrow> (CONSTVEL_STATE option \<times> CONSTVEL_STATE option) option" where
  "getNewState mdl stateNum state report =
     (if stateNum = 0 then
        (let state' =
           (case (state, report) of
              (Some st, Some rp) \<Rightarrow>
                if getDX st = 0 \<and> getDY st = 0
                then (let dx = r_x rp - getX st;
                          dy = r_y rp - getY st
                      in Some (setDY (setDX st dx) dy))
                else Some st
            | _ \<Rightarrow> state)
         in getNextState mdl state' report)
      else None)"

definition beginNewStates :: "CONSTVEL_MDL \<Rightarrow> CONSTVEL_STATE option \<Rightarrow> REPORT option \<Rightarrow> int" where
  "beginNewStates mdl state report = 1"

text \<open>The constructor of \<^verbatim>\<open>CONSTVEL_MDL\<close>.\<close>

definition new_CONSTVEL_MDL ::
  "real \<Rightarrow> real \<Rightarrow> real \<Rightarrow> real \<Rightarrow> real \<Rightarrow> real \<Rightarrow> real \<Rightarrow> real \<Rightarrow> real \<Rightarrow> real \<Rightarrow> real
     \<Rightarrow> CONSTVEL_MDL" where
  "new_CONSTVEL_MDL positionMeasureVarianceX positionMeasureVarianceY gradientMeasureVariance
     intensityVariance processVariance startProb lambda_x detectProb stateVar
     intensityThreshold maxDistance =
     \<lparr>m_startLogLikelihood = ln startProb,
      m_lambda_x = lambda_x,
      m_skipLogLikelihood = ln (1 - detectProb),
      m_detectLogLikelihood = ln detectProb,
      m_maxDistance = maxDistance,
      m_processVariance = processVariance,
      m_intensityVariance = intensityVariance,
      m_intensityThreshold = intensityThreshold,
      m_stateVariance = stateVar,
      m_R = [[positionMeasureVarianceX, 0],
             [0, positionMeasureVarianceY]],
      m_startP = [[positionMeasureVarianceX, 0, 0, 0],
                  [0, stateVar, 0, 0],
                  [0, 0, positionMeasureVarianceY, 0],
                  [0, 0, 0, stateVar]]\<rparr>"

section \<open>Track trees\<close>

datatype hypo_class =
  MDL_ROOT_T_HYPO | MDL_DUMMY_T_HYPO | MDL_FALARM_T_HYPO | MDL_CONTINUE_T_HYPO
  | MDL_START_T_HYPO | MDL_SKIP_T_HYPO | MDL_END_T_HYPO

text \<open>
  A node of a track tree: the members of \<^verbatim>\<open>T_HYPO\<close> and the \<^verbatim>\<open>m_state\<close> of
  \<^verbatim>\<open>MDL_CONTINUE_T_HYPO\<close>, with the prefix \<open>h_\<close> in place of \<open>m_\<close>. \<open>h_class\<close> is the
  dynamic class of the object and \<open>h_addr\<close> its address. \<open>h_tree\<close> points to the tree by
  the tree's id, \<open>h_reportLink\<close> to a report by the report's address, \<open>h_gHypoLinks\<close> to
  group hypotheses by their addresses; \<open>None\<close> is the null pointer.
\<close>

record T_HYPO =
  h_class :: hypo_class
  h_addr :: nat
  h_tree :: "int option"
  h_timeStamp :: int
  h_reportLink :: "nat option"
  h_gHypoLinks :: "nat list"
  h_flag :: bool
  h_endsTrack :: bool
  h_mustVerify :: bool
  h_logLikelihood :: real
  h_state :: "CONSTVEL_STATE option"

datatype t_node = Node T_HYPO "t_node list"

fun node_info :: "t_node \<Rightarrow> T_HYPO" where
  "node_info (Node h cs) = h"

fun node_children :: "t_node \<Rightarrow> t_node list" where
  "node_children (Node h cs) = cs"

text \<open>
  The base constructor \<^verbatim>\<open>T_HYPO()\<close>; \<^verbatim>\<open>T_HYPO(report)\<close> also links the report. The source
  initialises \<^verbatim>\<open>m_logLikelihood\<close> to the marker \<^verbatim>\<open>DOUBLE_NOT_READY\<close>; the constructor of
  every class that is instantiated overwrites it, and the model starts from 0.
\<close>

definition new_T_HYPO :: "hypo_class \<Rightarrow> nat \<Rightarrow> nat option \<Rightarrow> T_HYPO" where
  "new_T_HYPO c a report =
     \<lparr>h_class = c, h_addr = a, h_tree = None, h_timeStamp = 0, h_reportLink = report,
      h_gHypoLinks = [], h_flag = False, h_endsTrack = False, h_mustVerify = False,
      h_logLikelihood = 0, h_state = None\<rparr>"

definition new_MDL_ROOT_T_HYPO :: "nat \<Rightarrow> T_HYPO" where
  "new_MDL_ROOT_T_HYPO a =
     (new_T_HYPO MDL_ROOT_T_HYPO a None)
       \<lparr>h_endsTrack := False, h_mustVerify := False, h_logLikelihood := 0\<rparr>"

definition new_MDL_DUMMY_T_HYPO :: "nat \<Rightarrow> real \<Rightarrow> T_HYPO" where
  "new_MDL_DUMMY_T_HYPO a logLikelihood =
     (new_T_HYPO MDL_DUMMY_T_HYPO a None)
       \<lparr>h_endsTrack := True, h_mustVerify := False, h_logLikelihood := logLikelihood\<rparr>"

definition new_MDL_FALARM_T_HYPO :: "nat \<Rightarrow> REPORT \<Rightarrow> T_HYPO" where
  "new_MDL_FALARM_T_HYPO a report =
     (new_T_HYPO MDL_FALARM_T_HYPO a (Some (r_addr report)))
       \<lparr>h_endsTrack := True, h_mustVerify := True,
        h_logLikelihood := m_falarmLogLikelihood report\<rparr>"

definition new_MDL_CONTINUE_T_HYPO ::
  "nat \<Rightarrow> real \<Rightarrow> real \<Rightarrow> real \<Rightarrow> CONSTVEL_STATE \<Rightarrow> REPORT \<Rightarrow> T_HYPO" where
  "new_MDL_CONTINUE_T_HYPO a trackLogLikelihood continueLogLikelihood detectLogLikelihood
     state report =
     (new_T_HYPO MDL_CONTINUE_T_HYPO a (Some (r_addr report)))
       \<lparr>h_state := Some state, h_endsTrack := False, h_mustVerify := True,
        h_logLikelihood := trackLogLikelihood + continueLogLikelihood + detectLogLikelihood
                            + m_logLikelihood state\<rparr>"

definition new_MDL_START_T_HYPO :: "nat \<Rightarrow> CONSTVEL_STATE \<Rightarrow> REPORT \<Rightarrow> T_HYPO" where
  "new_MDL_START_T_HYPO a state report =
     (new_T_HYPO MDL_START_T_HYPO a (Some (r_addr report)))
       \<lparr>h_state := Some state, h_endsTrack := False, h_mustVerify := True,
        h_logLikelihood := m_logLikelihood state\<rparr>"

definition new_MDL_SKIP_T_HYPO ::
  "nat \<Rightarrow> real \<Rightarrow> real \<Rightarrow> real \<Rightarrow> CONSTVEL_STATE \<Rightarrow> T_HYPO" where
  "new_MDL_SKIP_T_HYPO a trackLogLikelihood continueLogLikelihood skipLogLikelihood state =
     (new_T_HYPO MDL_SKIP_T_HYPO a None)
       \<lparr>h_state := Some state, h_endsTrack := False, h_mustVerify := True,
        h_logLikelihood := trackLogLikelihood + continueLogLikelihood + skipLogLikelihood
                            + m_logLikelihood state\<rparr>"

definition new_MDL_END_T_HYPO :: "nat \<Rightarrow> real \<Rightarrow> real \<Rightarrow> real \<Rightarrow> T_HYPO" where
  "new_MDL_END_T_HYPO a trackLogLikelihood skipLogLikelihood endLogLikelihood =
     (new_T_HYPO MDL_END_T_HYPO a None)
       \<lparr>h_endsTrack := True, h_mustVerify := True,
        h_logLikelihood := trackLogLikelihood + skipLogLikelihood + endLogLikelihood\<rparr>"

text \<open>
  \<^verbatim>\<open>T_HYPO::installChild\<close>: the child becomes the first child and is stamped with the
  parent's tree and the parent's time stamp plus one.
\<close>

definition installChild :: "t_node \<Rightarrow> T_HYPO \<Rightarrow> t_node" where
  "installChild p child =
     Node (node_info p)
          (Node (child\<lparr>h_tree := h_tree (node_info p),
                        h_timeStamp := h_timeStamp (node_info p) + 1\<rparr>) []
           # node_children p)"

definition set_state :: "t_node \<Rightarrow> CONSTVEL_STATE option \<Rightarrow> t_node" where
  "set_state p st = Node ((node_info p)\<lparr>h_state := st\<rparr>) (node_children p)"

subsection \<open>Children of a node\<close>

text \<open>
  The functions below run on the node \<open>p\<close> with its subtree and on the counter \<open>a\<close> of
  the next free address (every \<^verbatim>\<open>new\<close> of a node takes the next address). \<open>None\<close> is a
  call that does not return. The loops \<^verbatim>\<open>for (i = 0; i < n; i++)\<close> run over the list
  \<open>[0..n - 1]\<close>.
\<close>

fun startLoop :: "CONSTVEL_MDL \<Rightarrow> REPORT \<Rightarrow> int list \<Rightarrow> nat \<times> t_node \<Rightarrow> (nat \<times> t_node) option" where
  "startLoop mdl report [] acc = Some acc"
| "startLoop mdl report (i # is) (a, p) =
     (case getNewState mdl i None (Some report) of
        None \<Rightarrow> None
      | Some (prev, state) \<Rightarrow>
          (case state of
             None \<Rightarrow> startLoop mdl report is (a, p)
           | Some st \<Rightarrow>
               startLoop mdl report is
                 (a + 1, installChild p (new_MDL_START_T_HYPO a st report))))"

fun modelLoop :: "CONSTVEL_MDL list \<Rightarrow> REPORT \<Rightarrow> nat \<times> t_node \<Rightarrow> (nat \<times> t_node) option" where
  "modelLoop [] report acc = Some acc"
| "modelLoop (mdl # mdls) report acc =
     (let numStartStates = beginNewStates mdl None (Some report) in
      case startLoop mdl report [0..numStartStates - 1] acc of
        None \<Rightarrow> None
      | Some acc' \<Rightarrow> modelLoop mdls report acc')"

fun skipLoop ::
  "CONSTVEL_MDL \<Rightarrow> real \<Rightarrow> real \<Rightarrow> int list \<Rightarrow> nat \<times> t_node \<Rightarrow> (nat \<times> t_node) option" where
  "skipLoop mdl continueLogLikelihood skipLogLikelihood [] acc = Some acc"
| "skipLoop mdl continueLogLikelihood skipLogLikelihood (i # is) (a, p) =
     (case getNewState mdl i (h_state (node_info p)) None of
        None \<Rightarrow> None
      | Some (prev, state) \<Rightarrow>
          (let p' = set_state p prev in
           case state of
             None \<Rightarrow> skipLoop mdl continueLogLikelihood skipLogLikelihood is (a, p')
           | Some st \<Rightarrow>
               skipLoop mdl continueLogLikelihood skipLogLikelihood is
                 (a + 1,
                  installChild p'
                    (new_MDL_SKIP_T_HYPO a (h_logLikelihood (node_info p'))
                       continueLogLikelihood skipLogLikelihood st))))"

fun continueLoop ::
  "CONSTVEL_MDL \<Rightarrow> real \<Rightarrow> real \<Rightarrow> REPORT \<Rightarrow> int list \<Rightarrow> nat \<times> t_node
     \<Rightarrow> (nat \<times> t_node) option" where
  "continueLoop mdl continueLogLikelihood detectLogLikelihood report [] acc = Some acc"
| "continueLoop mdl continueLogLikelihood detectLogLikelihood report (i # is) (a, p) =
     (case getNewState mdl i (h_state (node_info p)) (Some report) of
        None \<Rightarrow> None
      | Some (prev, state) \<Rightarrow>
          (let p' = set_state p prev in
           case state of
             None \<Rightarrow>
               continueLoop mdl continueLogLikelihood detectLogLikelihood report is (a, p')
           | Some st \<Rightarrow>
               continueLoop mdl continueLogLikelihood detectLogLikelihood report is
                 (a + 1,
                  installChild p'
                    (new_MDL_CONTINUE_T_HYPO a (h_logLikelihood (node_info p'))
                       continueLogLikelihood detectLogLikelihood st report))))"

text \<open>
  \<^verbatim>\<open>makeDefaultChildren\<close>, dispatched on the class of the node. \<^verbatim>\<open>MDL_FALARM_T_HYPO\<close> and
  \<^verbatim>\<open>MDL_END_T_HYPO\<close> inherit it from \<^verbatim>\<open>MDL_DUMMY_T_HYPO\<close>, \<^verbatim>\<open>MDL_START_T_HYPO\<close> and
  \<^verbatim>\<open>MDL_SKIP_T_HYPO\<close> from \<^verbatim>\<open>MDL_CONTINUE_T_HYPO\<close>. The logarithm of the source is
  minus infinity exactly at 0, so the tests \<^verbatim>\<open>endLogLikelihood != -INFINITY\<close> and
  \<^verbatim>\<open>continueLogLikelihood != -INFINITY\<close> are tests of the argument of the logarithm.
\<close>

definition makeDefaultChildren :: "nat \<Rightarrow> t_node \<Rightarrow> (nat \<times> t_node) option" where
  "makeDefaultChildren a p =
     (let h = node_info p in
      if h_class h = MDL_ROOT_T_HYPO then
        Some (a + 1, installChild p (new_MDL_DUMMY_T_HYPO a 0))
      else if h_class h \<in> {MDL_DUMMY_T_HYPO, MDL_FALARM_T_HYPO, MDL_END_T_HYPO} then
        Some (a + 1, installChild p (new_MDL_DUMMY_T_HYPO a (h_logLikelihood h)))
      else
        (case h_state h of
           None \<Rightarrow> None
         | Some st \<Rightarrow>
             (let mdl = m_mdl st;
                  endLogLikelihood = getEndLogLikelihood mdl st;
                  continueLogLikelihood = getContinueLogLikelihood mdl st;
                  skipLogLikelihood = getSkipLogLikelihood mdl st;
                  (a1, p1) =
                    (if endProb mdl st \<noteq> 0
                     then (a + 1,
                           installChild p
                             (new_MDL_END_T_HYPO a (h_logLikelihood h) skipLogLikelihood
                                endLogLikelihood))
                     else (a, p))
              in if 1 - endProb mdl st \<noteq> 0
                 then (let numNewStates = beginNewStates mdl (Some st) None
                       in skipLoop mdl continueLogLikelihood skipLogLikelihood
                            [0..numNewStates - 1] (a1, p1))
                 else Some (a1, p1))))"

text \<open>\<^verbatim>\<open>makeChildrenFor\<close>; the classes below \<^verbatim>\<open>MDL_DUMMY_T_HYPO\<close> make no such children.\<close>

definition makeChildrenFor ::
  "CONSTVEL_MDL list \<Rightarrow> REPORT \<Rightarrow> nat \<Rightarrow> t_node \<Rightarrow> (nat \<times> t_node) option" where
  "makeChildrenFor modelList report a p =
     (let h = node_info p in
      if h_class h = MDL_ROOT_T_HYPO then
        modelLoop modelList report (a + 1, installChild p (new_MDL_FALARM_T_HYPO a report))
      else if h_class h \<in> {MDL_DUMMY_T_HYPO, MDL_FALARM_T_HYPO, MDL_END_T_HYPO} then
        Some (a, p)
      else
        (case h_state h of
           None \<Rightarrow> None
         | Some st \<Rightarrow>
             (let mdl = m_mdl st;
                  continueLogLikelihood = getContinueLogLikelihood mdl st;
                  detectLogLikelihood = getDetectLogLikelihood mdl st;
                  numNewStates = beginNewStates mdl (Some st) (Some report)
              in continueLoop mdl continueLogLikelihood detectLogLikelihood report
                   [0..numNewStates - 1] (a, p))))"

section \<open>The engine\<close>

text \<open>
  Modelled from the spec: the classes \<^verbatim>\<open>CORNERXY\<close> and \<^verbatim>\<open>CORNERLIST\<close> are declared in a
  header that is not among the sources; their fields are the ones read by
  \<^verbatim>\<open>CORNER_TRACK_MHT::measure\<close> and \<^verbatim>\<open>MHT::scan\<close>.
\<close>

record CORNERXY =
  c_x :: real
  c_y :: real
  c_textureInfo :: Texture_t
  c_frameNo :: int
  c_cornerID :: nat

record CORNERLIST =
  c_list :: "CORNERXY list"
  m_dT :: real

text \<open>
  A track tree: \<open>t_tree\<close> is the \<^verbatim>\<open>iTREE_OF<T_HYPO>\<close> (\<open>None\<close> when it is empty), \<open>t_id\<close>
  and \<open>t_groupId\<close> are \<^verbatim>\<open>m_id\<close> and \<^verbatim>\<open>m_groupId\<close>.
\<close>

record T_TREE =
  t_tree :: "t_node option"
  t_id :: int
  t_groupId :: int

text \<open>
  The calls \<^verbatim>\<open>verify()\<close> makes on the engine: \<^verbatim>\<open>startTrack\<close>, \<^verbatim>\<open>continueTrack\<close>,
  \<^verbatim>\<open>skipTrack\<close>, \<^verbatim>\<open>endTrack\<close> and \<^verbatim>\<open>falseAlarm\<close>, with their arguments. The bodies of
  these callbacks in \<^verbatim>\<open>CORNER_TRACK_MHT\<close> are not among the sources; the engine state
  records the calls in the order they are made.
\<close>

datatype verification =
  startTrack int int "CONSTVEL_STATE option" "nat option"
  | continueTrack int int "CONSTVEL_STATE option" "nat option"
  | skipTrack int int "CONSTVEL_STATE option"
  | endTrack int int
  | falseAlarm int "nat option"

text \<open>
  The engine: the members of \<^verbatim>\<open>MHT\<close>, \<^verbatim>\<open>m_modelList\<close> of \<^verbatim>\<open>MDL_MHT\<close> and
  \<^verbatim>\<open>m_falarmLogLikelihood\<close> of \<^verbatim>\<open>CORNER_TRACK_MHT\<close>. The group list has the abstract type
  \<open>'g\<close>: the member functions of \<^verbatim>\<open>GROUP\<close> and \<^verbatim>\<open>G_HYPO\<close> are not among the sources.
  \<open>m_activeTHypoList\<close> holds pointers to nodes (addresses), \<open>m_nextNewTTree\<close> points into
  the tree list (the id of a tree, \<open>None\<close> when it is not valid). \<open>m_verified\<close> is the record
  of the callbacks, \<open>m_nextAddr\<close> the next free address. The six debug bounds
  \<^verbatim>\<open>m_dbgStartA\<close> ... \<^verbatim>\<open>m_dbgEndC\<close> only switch printing and are left out.
\<close>

record 'g MHT =
  m_lastTrackIdUsed :: int
  m_currentTime :: int
  m_maxDepth :: int
  m_logMinGHypoRatio :: real
  m_maxGHypos :: int
  m_tTreeList :: "T_TREE list"
  m_nextNewTTree :: "int option"
  m_groupList :: 'g
  m_oldReportList :: "REPORT list"
  m_newReportList :: "REPORT list"
  m_activeTHypoList :: "nat list"
  m_reportsQueue :: "CORNERLIST list"
  m_isFirstScan :: bool
  m_modelList :: "CONSTVEL_MDL list"
  m_mhtFalarmLogLikelihood :: real
  m_verified :: "verification list"
  m_nextAddr :: nat

text \<open>
  The constructors of \<^verbatim>\<open>MHT\<close> and \<^verbatim>\<open>MDL_MHT\<close>. The constructor of \<^verbatim>\<open>CORNER_TRACK_MHT\<close>
  is not among the sources; the false-alarm log-likelihood it stores and the model list
  are taken as given, and \<open>noGroups\<close> is the empty group list.
\<close>

definition new_MHT ::
  "real \<Rightarrow> int \<Rightarrow> real \<Rightarrow> int \<Rightarrow> CONSTVEL_MDL list \<Rightarrow> 'g \<Rightarrow> 'g MHT" where
  "new_MHT falarmLogLikelihood maxDepth minGHypoRatio maxGHypos mdlist noGroups =
     \<lparr>m_lastTrackIdUsed = 0, m_currentTime = 0, m_maxDepth = maxDepth,
      m_logMinGHypoRatio = ln minGHypoRatio, m_maxGHypos = maxGHypos, m_tTreeList = [],
      m_nextNewTTree = None, m_groupList = noGroups, m_oldReportList = [],
      m_newReportList = [], m_activeTHypoList = [], m_reportsQueue = [],
      m_isFirstScan = True, m_modelList = mdlist,
      m_mhtFalarmLogLikelihood = falarmLogLikelihood,
      m_verified = [], m_nextAddr = 0\<rparr>"

definition addReports :: "CORNERLIST \<Rightarrow> 'g MHT \<Rightarrow> 'g MHT" where
  "addReports newReports s = s\<lparr>m_reportsQueue := m_reportsQueue s @ [newReports]\<rparr>"

definition installReport :: "REPORT \<Rightarrow> 'g MHT \<Rightarrow> 'g MHT" where
  "installReport report s = s\<lparr>m_newReportList := m_newReportList s @ [report]\<rparr>"

text \<open>
  \<^verbatim>\<open>CORNER_TRACK_MHT::measure\<close>: one \<^verbatim>\<open>new CONSTPOS_REPORT\<close> per corner, installed in the
  order of the batch. The constructor of \<^verbatim>\<open>REPORT\<close> sets the row number and the group id
  to 0.
\<close>

fun measure_reports :: "CORNERXY list \<Rightarrow> 'g MHT \<Rightarrow> 'g MHT" where
  "measure_reports [] s = s"
| "measure_reports (c # cs) s =
     measure_reports cs
       (installReport
          \<lparr>r_addr = m_nextAddr s, m_rowNum = 0, m_groupId = 0,
           m_falarmLogLikelihood = m_mhtFalarmLogLikelihood s, r_x = c_x c, r_y = c_y c,
           m_textureInfo = c_textureInfo c, m_frameNo = c_frameNo c,
           m_cornerID = c_cornerID c\<rparr>
          (s\<lparr>m_nextAddr := m_nextAddr s + 1\<rparr>))"

text \<open>
  \<^verbatim>\<open>MHT::installTree\<close>: the new tree takes the next track id, its root is stamped with the
  tree and the time \<^verbatim>\<open>m_currentTime + timeOffset\<close> and is appended to the active list.
\<close>

definition installTree :: "T_HYPO \<Rightarrow> int \<Rightarrow> 'g MHT \<Rightarrow> 'g MHT" where
  "installTree rootNode timeOffset s =
     (let tree = \<lparr>t_tree = Some (Node (rootNode\<lparr>h_tree := Some (m_lastTrackIdUsed s),
                                                   h_timeStamp := m_currentTime s + timeOffset\<rparr>) []),
                  t_id = m_lastTrackIdUsed s, t_groupId = 0\<rparr>
      in s\<lparr>m_lastTrackIdUsed := m_lastTrackIdUsed s + 1,
            m_activeTHypoList := m_activeTHypoList s @ [h_addr rootNode],
            m_tTreeList := m_tTreeList s @ [tree],
            m_nextNewTTree := (case m_nextNewTTree s of
                                 None \<Rightarrow> Some (t_id tree)
                               | Some t \<Rightarrow> Some t)\<rparr>)"

subsection \<open>Reaching a node through a pointer\<close>

fun find_node :: "nat \<Rightarrow> t_node \<Rightarrow> t_node option" where
  "find_node a (Node h cs) =
     (if h_addr h = a then Some (Node h cs)
      else (case filter (\<lambda>r. r \<noteq> None) (map (find_node a) cs) of
              [] \<Rightarrow> None
            | r # _ \<Rightarrow> r))"

fun replace_node :: "nat \<Rightarrow> t_node \<Rightarrow> t_node \<Rightarrow> t_node" where
  "replace_node a new (Node h cs) =
     (if h_addr h = a then new else Node h (map (replace_node a new) cs))"

definition find_in_trees :: "nat \<Rightarrow> T_TREE list \<Rightarrow> t_node option" where
  "find_in_trees a ts =
     (case filter (\<lambda>r. r \<noteq> None)
             (map (\<lambda>t. case t_tree t of None \<Rightarrow> None | Some n \<Rightarrow> find_node a n) ts) of
        [] \<Rightarrow> None
      | r # _ \<Rightarrow> r)"

definition replace_in_trees :: "nat \<Rightarrow> t_node \<Rightarrow> T_TREE list \<Rightarrow> T_TREE list" where
  "replace_in_trees a new ts =
     map (\<lambda>t. t\<lparr>t_tree := map_option (replace_node a new) (t_tree t)\<rparr>) ts"

text \<open>
  A member function \<open>f\<close> called through the pointer \<open>a\<close> to a node: it runs on the node
  in its tree. A pointer to no node of any tree does not occur in the engine; the call
  then does not return.
\<close>

definition at_node ::
  "nat \<Rightarrow> (nat \<Rightarrow> t_node \<Rightarrow> (nat \<times> t_node) option) \<Rightarrow> 'g MHT \<Rightarrow> 'g MHT option" where
  "at_node a f s =
     (case find_in_trees a (m_tTreeList s) of
        None \<Rightarrow> None
      | Some p \<Rightarrow>
          (case f (m_nextAddr s) p of
             None \<Rightarrow> None
           | Some (a', p') \<Rightarrow>
               Some (s\<lparr>m_nextAddr := a',
                       m_tTreeList := replace_in_trees a p' (m_tTreeList s)\<rparr>)))"

subsection \<open>\<^verbatim>\<open>MDL_MHT::measureAndValidate\<close>\<close>

text \<open>
  \<^verbatim>\<open>measureAndValidate\<close> hands the batch and its interval \<^verbatim>\<open>deltaT\<close> to \<^verbatim>\<open>measure\<close>; the
  \<^verbatim>\<open>CORNER_TRACK_MHT::measure\<close> of the sources takes the batch only. Then every active
  node makes its default children and its children for every new report, and every new
  report gets a tree of its own, installed with the time offset -1.
\<close>

fun childrenForReports :: "nat \<Rightarrow> REPORT list \<Rightarrow> 'g MHT \<Rightarrow> 'g MHT option" where
  "childrenForReports a [] s = Some s"
| "childrenForReports a (report # reports) s =
     (case at_node a (makeChildrenFor (m_modelList s) report) s of
        None \<Rightarrow> None
      | Some s' \<Rightarrow> childrenForReports a reports s')"

fun growActive :: "nat list \<Rightarrow> 'g MHT \<Rightarrow> 'g MHT option" where
  "growActive [] s = Some s"
| "growActive (a # as) s =
     (case at_node a makeDefaultChildren s of
        None \<Rightarrow> None
      | Some s1 \<Rightarrow>
          (case childrenForReports a (m_newReportList s1) s1 of
             None \<Rightarrow> None
           | Some s2 \<Rightarrow> growActive as s2))"

fun newTrees :: "REPORT list \<Rightarrow> 'g MHT \<Rightarrow> 'g MHT option" where
  "newTrees [] s = Some s"
| "newTrees (report # reports) s =
     (let a = m_nextAddr s;
          rootNd = new_MDL_ROOT_T_HYPO a;
          s1 = installTree rootNd (- 1) (s\<lparr>m_nextAddr := a + 1\<rparr>)
      in case at_node a makeDefaultChildren s1 of
           None \<Rightarrow> None
         | Some s2 \<Rightarrow>
             (case at_node a (makeChildrenFor (m_modelList s2) report) s2 of
                None \<Rightarrow> None
              | Some s3 \<Rightarrow> newTrees reports s3))"

definition measureAndValidate :: "CORNERXY list \<Rightarrow> real \<Rightarrow> 'g MHT \<Rightarrow> 'g MHT option" where
  "measureAndValidate newReports deltaT s =
     (let s1 = measure_reports newReports s in
      case growActive (m_activeTHypoList s1) s1 of
        None \<Rightarrow> None
      | Some s2 \<Rightarrow> newTrees (m_newReportList s2) s2)"

subsection \<open>The steps of \<^verbatim>\<open>MHT::scan\<close>\<close>

text \<open>\<^verbatim>\<open>MHT::importNewReports\<close>: row numbers 0, 1, ... in list order, then the splice.\<close>

definition importNewReports :: "'g MHT \<Rightarrow> 'g MHT" where
  "importNewReports s =
     s\<lparr>m_oldReportList :=
           m_oldReportList s
           @ map (\<lambda>(rowNum, r). r\<lparr>m_rowNum := int rowNum\<rparr>) (enumerate 0 (m_newReportList s)),
        m_newReportList := []\<rparr>"

text \<open>
  \<^verbatim>\<open>verify()\<close>, dispatched on the class of the node. \<^verbatim>\<open>T_HYPO::verify\<close>, which the root and
  the dummy nodes inherit, fails its assertion; \<^verbatim>\<open>getTrackStamp\<close> reads the tree pointer.
\<close>

definition verify :: "T_HYPO \<Rightarrow> verification option" where
  "verify h =
     (case h_class h of
        MDL_ROOT_T_HYPO \<Rightarrow> None
      | MDL_DUMMY_T_HYPO \<Rightarrow> None
      | MDL_FALARM_T_HYPO \<Rightarrow> Some (falseAlarm (h_timeStamp h) (h_reportLink h))
      | MDL_END_T_HYPO \<Rightarrow>
          (case h_tree h of
             None \<Rightarrow> None
           | Some t \<Rightarrow> Some (endTrack t (h_timeStamp h)))
      | MDL_CONTINUE_T_HYPO \<Rightarrow>
          (case h_tree h of
             None \<Rightarrow> None
           | Some t \<Rightarrow> Some (continueTrack t (h_timeStamp h) (h_state h) (h_reportLink h)))
      | MDL_START_T_HYPO \<Rightarrow>
          (case h_tree h of
             None \<Rightarrow> None
           | Some t \<Rightarrow> Some (startTrack t (h_timeStamp h) (h_state h) (h_reportLink h)))
      | MDL_SKIP_T_HYPO \<Rightarrow>
          (case h_tree h of
             None \<Rightarrow> None
           | Some t \<Rightarrow> Some (skipTrack t (h_timeStamp h) (h_state h))))"

text \<open>
  The body of the loop of \<^verbatim>\<open>MHT::verifyTTreeRoots\<close> for one tree that is not empty: the
  \<^verbatim>\<open>while\<close> loop that verifies and removes roots, then the test of the last root. \<open>out\<close>
  is the record of the callbacks so far. \<^verbatim>\<open>removeRoot\<close> makes the only child the root.
\<close>

definition verifyLastRoot :: "t_node \<Rightarrow> verification list \<Rightarrow> (t_node \<times> verification list) option" where
  "verifyLastRoot rootNd out =
     (if h_endsTrack (node_info rootNd) \<and> h_mustVerify (node_info rootNd)
      then (case verify (node_info rootNd) of
              None \<Rightarrow> None
            | Some v \<Rightarrow> Some (rootNd, out @ [v]))
      else Some (rootNd, out))"

fun verifyRoot :: "t_node \<Rightarrow> verification list \<Rightarrow> (t_node \<times> verification list) option" where
  "verifyRoot (Node h [c]) out =
     (if \<not> h_endsTrack h
      then (if h_mustVerify h
            then (case verify h of
                    None \<Rightarrow> None
                  | Some v \<Rightarrow> verifyRoot c (out @ [v]))
            else verifyRoot c out)
      else verifyLastRoot (Node h [c]) out)"
| "verifyRoot (Node h cs) out = verifyLastRoot (Node h cs) out"

fun verifyTrees ::
  "T_TREE list \<Rightarrow> verification list \<Rightarrow> (T_TREE list \<times> verification list) option" where
  "verifyTrees [] out = Some ([], out)"
| "verifyTrees (t # ts) out =
     (case t_tree t of
        None \<Rightarrow>
          (case verifyTrees ts out of
             None \<Rightarrow> None
           | Some (ts', out') \<Rightarrow> Some (t # ts', out'))
      | Some rootNd \<Rightarrow>
          (case verifyRoot rootNd out of
             None \<Rightarrow> None
           | Some (rootNd', out1) \<Rightarrow>
               (case verifyTrees ts out1 of
                  None \<Rightarrow> None
                | Some (ts', out') \<Rightarrow> Some (t\<lparr>t_tree := Some rootNd'\<rparr> # ts', out'))))"

definition verifyTTreeRoots :: "'g MHT \<Rightarrow> 'g MHT option" where
  "verifyTTreeRoots s =
     (case verifyTrees (m_tTreeList s) (m_verified s) of
        None \<Rightarrow> None
      | Some (ts, out) \<Rightarrow> Some (s\<lparr>m_tTreeList := ts, m_verified := out\<rparr>))"

text \<open>
  \<^verbatim>\<open>MHT::removeUnusedTHypos\<close>: in post-order, a node that is a leaf (after the removals
  below it) and that no group hypothesis postulates is removed.
\<close>

fun pruneUnused :: "t_node \<Rightarrow> t_node option" where
  "pruneUnused (Node h cs) =
     (let cs' = map the (filter (\<lambda>r. r \<noteq> None) (map pruneUnused cs))
      in if cs' = [] \<and> h_gHypoLinks h = [] then None else Some (Node h cs'))"

definition removeUnusedTHypos :: "'g MHT \<Rightarrow> 'g MHT" where
  "removeUnusedTHypos s =
     s\<lparr>m_tTreeList :=
           map (\<lambda>t. t\<lparr>t_tree := (case t_tree t of None \<Rightarrow> None | Some n \<Rightarrow> pruneUnused n)\<rparr>)
               (m_tTreeList s)\<rparr>"

fun nodes_of :: "t_node \<Rightarrow> t_node list" where
  "nodes_of (Node h cs) = Node h cs # concat (map nodes_of cs)"

text \<open>\<^verbatim>\<open>MHT::removeUnusedTTrees\<close>.\<close>

definition treeIsInUse :: "T_TREE \<Rightarrow> bool" where
  "treeIsInUse t =
     (case t_tree t of
        None \<Rightarrow> False
      | Some rootNd \<Rightarrow>
          \<not> h_endsTrack (node_info rootNd) \<and>
          list_ex (\<lambda>n. h_mustVerify (node_info n) \<or>
                         (node_children n = [] \<and> \<not> h_endsTrack (node_info n)))
                  (nodes_of rootNd))"

definition removeUnusedTTrees :: "'g MHT \<Rightarrow> 'g MHT" where
  "removeUnusedTTrees s = s\<lparr>m_tTreeList := filter treeIsInUse (m_tTreeList s)\<rparr>"

text \<open>
  \<^verbatim>\<open>MHT::removeUnusedReports\<close>: a report is in use while a node of some tree is linked
  to it (a link disappears with the node).
\<close>

definition linkedReports :: "T_TREE list \<Rightarrow> nat list" where
  "linkedReports ts =
     concat (map (\<lambda>t. case t_tree t of
                          None \<Rightarrow> []
                        | Some rootNd \<Rightarrow>
                            concat (map (\<lambda>n. case h_reportLink (node_info n) of
                                                 None \<Rightarrow> []
                                               | Some r \<Rightarrow> [r])
                                        (nodes_of rootNd)))
                 ts)"

definition removeUnusedReports :: "'g MHT \<Rightarrow> 'g MHT" where
  "removeUnusedReports s =
     s\<lparr>m_oldReportList :=
           filter (\<lambda>r. r_addr r \<in> set (linkedReports (m_tTreeList s))) (m_oldReportList s)\<rparr>"

text \<open>\<^verbatim>\<open>MHT::updateActiveTHypoList\<close>: the leaves of every tree are appended.\<close>

definition updateActiveTHypoList :: "'g MHT \<Rightarrow> 'g MHT" where
  "updateActiveTHypoList s =
     s\<lparr>m_activeTHypoList :=
           m_activeTHypoList s
           @ concat (map (\<lambda>t. case t_tree t of
                                  None \<Rightarrow> []
                                | Some rootNd \<Rightarrow>
                                    map (\<lambda>n. h_addr (node_info n))
                                        (filter (\<lambda>n. node_children n = []) (nodes_of rootNd)))
                         (m_tTreeList s))\<rparr>"

text \<open>
  The steps of a scan that work on the groups call member functions of \<^verbatim>\<open>GROUP\<close>,
  \<^verbatim>\<open>G_HYPO\<close> and \<^verbatim>\<open>REPORT\<close> that are not among the sources. They are parameters of the
  model: a record of state transformers.
\<close>

record 'g group_steps =
  makeNewGroups :: "'g MHT \<Rightarrow> 'g MHT"
  findGroupLabels :: "'g MHT \<Rightarrow> 'g MHT"
  splitGroups :: "'g MHT \<Rightarrow> 'g MHT"
  mergeGroups :: "'g MHT \<Rightarrow> 'g MHT"
  pruneAndHypothesize :: "'g MHT \<Rightarrow> 'g MHT"
  removeUnusedGroups :: "'g MHT \<Rightarrow> 'g MHT"

subsection \<open>\<^verbatim>\<open>MHT::scan\<close>\<close>

text \<open>
  The result is the returned \<^verbatim>\<open>int\<close> and the engine after the call; \<open>None\<close> is a call
  that does not return. The debug hooks \<^verbatim>\<open>doDbgA\<close>, \<^verbatim>\<open>doDbgB\<close> and \<^verbatim>\<open>doDbgC\<close> only
  print.
\<close>

definition scan :: "'g group_steps \<Rightarrow> 'g MHT \<Rightarrow> (int \<times> 'g MHT) option" where
  "scan G s =
     (case m_reportsQueue s of
        [] \<Rightarrow> Some (0, s)
      | newReports # queue \<Rightarrow>
          (case measureAndValidate (c_list newReports) (m_dT newReports)
                  (s\<lparr>m_reportsQueue := queue\<rparr>) of
             None \<Rightarrow> None
           | Some s1 \<Rightarrow>
               (let s2 = s1\<lparr>m_currentTime := m_currentTime s1 + 1\<rparr>;
                    s3 = s2\<lparr>m_activeTHypoList := []\<rparr>;
                    s4 = importNewReports s3
                in if m_tTreeList s4 = [] then Some (0, s4)
                   else
                     (let s5 = makeNewGroups G s4;
                          s6 = findGroupLabels G s5;
                          s7 = splitGroups G s6;
                          s8 = mergeGroups G s7;
                          s9 = pruneAndHypothesize G s8;
                          s10 = removeUnusedTHypos s9
                      in case verifyTTreeRoots s10 of
                           None \<Rightarrow> None
                         | Some s11 \<Rightarrow>
                             (let s12 = removeUnusedTTrees s11;
                                  s13 = removeUnusedReports s12;
                                  s14 = removeUnusedGroups G s13;
                                  s15 = updateActiveTHypoList s14
                              in Some (1, s15\<lparr>m_isFirstScan := False\<rparr>))))))"

section \<open>The specification's descriptions\<close>

text \<open>
  The definitions of this section are written from the words of the specification, to be
  compared with the functions above, which are written from the sources.
\<close>

subsection \<open>The derived block of a state\<close>

definition F_spec :: "real \<Rightarrow> MATRIX" where
  "F_spec dt = [[1, dt, 0, 0], [0, 1, 0, 0], [0, 0, 1, dt], [0, 0, 0, 1]]"

definition Q_spec :: "real \<Rightarrow> real \<Rightarrow> MATRIX" where
  "Q_spec var dt =
     m_scale [[dt ^ 3 / 3, dt ^ 2 / 2, 0, 0], [dt ^ 2 / 2, dt, 0, 0],
              [0, 0, dt ^ 3 / 3, dt ^ 2 / 2], [0, 0, dt ^ 2 / 2, dt]] var"

definition H_spec :: MATRIX where
  "H_spec = [[1, 0, 0, 0], [0, 0, 1, 0]]"

definition derived_spec :: "real \<Rightarrow> real \<Rightarrow> MATRIX \<Rightarrow> MATRIX \<Rightarrow> MATRIX \<Rightarrow> DERIVED" where
  "derived_spec dt var R P x =
     (let P1 = m_add (m_mul (m_mul (F_spec dt) P) (m_trans (F_spec dt))) (Q_spec var dt);
          S = m_add (m_mul (m_mul H_spec P1) (m_trans H_spec)) R;
          W = m_mul (m_mul P1 (m_trans H_spec)) (m_inv S)
      in \<lparr>m_ds = dt,
          m_logLikelihoodCoef = - (15963597 / 10000000 + ln (m_det S) / 2),
          m_Sinv = m_inv S,
          m_W = W,
          m_nextP = m_sub P1 (m_mul (m_mul W S) (m_trans W)),
          m_x1 = m_mul (F_spec dt) x\<rparr>)"


subsection \<open>Texture correlation\<close>





subsection \<open>Verifying and popping roots\<close>

text \<open>
  While the root has exactly one child and does not end the track, that child becomes the
  new root: \<open>poppedRoots\<close> are the roots removed on the way, \<open>finalRoot\<close> is the tree that
  is left.
\<close>

fun poppedRoots :: "t_node \<Rightarrow> T_HYPO list" where
  "poppedRoots (Node h [c]) = (if h_endsTrack h then [] else h # poppedRoots c)"
| "poppedRoots (Node h cs) = []"

fun finalRoot :: "t_node \<Rightarrow> t_node" where
  "finalRoot (Node h [c]) = (if h_endsTrack h then Node h [c] else finalRoot c)"
| "finalRoot (Node h cs) = Node h cs"

text \<open>
  The verification events of one tree: one for every removed root that is marked
  must-verify, then one for the final root if it ends the track and is marked must-verify.
\<close>

definition rootEvents :: "t_node \<Rightarrow> verification list" where
  "rootEvents t =
     List.map_filter verify (filter h_mustVerify (poppedRoots t))
     @ (if h_endsTrack (node_info (finalRoot t)) \<and> h_mustVerify (node_info (finalRoot t))
        then List.map_filter verify [node_info (finalRoot t)] else [])"

definition treeEvents :: "T_TREE \<Rightarrow> verification list" where
  "treeEvents t = (case t_tree t of None \<Rightarrow> [] | Some n \<Rightarrow> rootEvents n)"

definition popTree :: "T_TREE \<Rightarrow> T_TREE" where
  "popTree t = t\<lparr>t_tree := map_option finalRoot (t_tree t)\<rparr>"

text \<open>
  A tree whose must-verify nodes can be verified: none of them is of a class that inherits
  \<^verbatim>\<open>T_HYPO::verify\<close>, and each has its tree pointer. Every node the engine creates is so.
\<close>

definition verifiable :: "t_node \<Rightarrow> bool" where
  "verifiable t =
     list_all (\<lambda>n. if h_mustVerify (node_info n) then verify (node_info n) \<noteq> None else True)
       (nodes_of t)"

definition verifiableTree :: "T_TREE \<Rightarrow> bool" where
  "verifiableTree t = (case t_tree t of None \<Rightarrow> True | Some n \<Rightarrow> verifiable n)"

subsection \<open>What a report measures\<close>


section \<open>Concrete inputs\<close>

definition ex_mdl :: CONSTVEL_MDL where
  "ex_mdl = new_CONSTVEL_MDL 1 1 1 1 3 1 10 (1 / 2) 1 (1 / 2) 10"

definition ex_tex :: Texture_t where
  "ex_tex = replicate 25 0"

definition ex_report :: REPORT where
  "ex_report =
     \<lparr>r_addr = 0, m_rowNum = 0, m_groupId = 0, m_falarmLogLikelihood = 0, r_x = 1, r_y = 2,
      m_textureInfo = ex_tex, m_frameNo = 1, m_cornerID = 7\<rparr>"


definition ex_state :: CONSTVEL_STATE where
  "ex_state = new_CONSTVEL_STATE ex_mdl 0 0 0 0 ex_tex (m_startP ex_mdl) 0 0"

definition ex_moving_state :: CONSTVEL_STATE where
  "ex_moving_state = new_CONSTVEL_STATE ex_mdl 0 1 0 0 ex_tex (m_startP ex_mdl) 0 0"

definition ex_corner :: CORNERXY where
  "ex_corner = \<lparr>c_x = 10, c_y = 20, c_textureInfo = ex_tex, c_frameNo = 2, c_cornerID = 3\<rparr>"

definition ex_mht :: "unit MHT" where
  "ex_mht = new_MHT 0 3 (1 / 1000) 10 [ex_mdl] ()"

text \<open>An engine after a completed first scan that has left no tree.\<close>

definition ex_later_mht :: "unit MHT" where
  "ex_later_mht =
     ex_mht\<lparr>m_isFirstScan := False, m_currentTime := 1, m_lastTrackIdUsed := 1, m_nextAddr := 5,
            m_reportsQueue := [\<lparr>c_list = [ex_corner], m_dT = 1\<rparr>]\<rparr>"

definition ex_steps :: "unit group_steps" where
  "ex_steps =
     \<lparr>makeNewGroups = (\<lambda>s. s), findGroupLabels = (\<lambda>s. s), splitGroups = (\<lambda>s. s),
      mergeGroups = (\<lambda>s. s), pruneAndHypothesize = (\<lambda>s. s), removeUnusedGroups = (\<lambda>s. s)\<rparr>"



text \<open>An engine with one pending batch that holds no detection.\<close>

definition ex_empty_batch_mht :: "unit MHT" where
  "ex_empty_batch_mht = ex_mht\<lparr>m_reportsQueue := [\<lparr>c_list = [], m_dT = 1\<rparr>]\<rparr>"

text \<open>
  A tree of track 0 that is a chain: a root, a start node below it and an end node below
  that, stamped 0, 1 and 2; and an engine that holds this tree.
\<close>

definition ex_root_info :: T_HYPO where
  "ex_root_info = (new_MDL_ROOT_T_HYPO 0)\<lparr>h_tree := Some 0, h_timeStamp := 0\<rparr>"

definition ex_start_info :: T_HYPO where
  "ex_start_info =
     (new_MDL_START_T_HYPO 1 ex_state ex_report)\<lparr>h_tree := Some 0, h_timeStamp := 1\<rparr>"

definition ex_end_info :: T_HYPO where
  "ex_end_info = (new_MDL_END_T_HYPO 2 0 0 0)\<lparr>h_tree := Some 0, h_timeStamp := 2\<rparr>"

definition ex_tree :: t_node where
  "ex_tree = Node ex_root_info [Node ex_start_info [Node ex_end_info []]]"

definition ex_verify_mht :: "unit MHT" where
  "ex_verify_mht = ex_mht\<lparr>m_tTreeList := [\<lparr>t_tree = Some ex_tree, t_id = 0, t_groupId = 1\<rparr>]\<rparr>"

text \<open>The members of the engine that growing the trees does not touch.\<close>

definition engine_frame ::
  "'g MHT \<Rightarrow> bool \<times> 'g \<times> int \<times> REPORT list \<times> CORNERLIST list \<times> verification list" where
  "engine_frame s =
     (m_isFirstScan s, m_groupList s, m_currentTime s, m_oldReportList s, m_reportsQueue s,
      m_verified s)"

section \<open>Facts about the numeric kernel\<close>




text \<open>\<open>m_inv\<close> is the inverse of a 2 by 2 matrix whose determinant is not zero.\<close>

lemma m_inv_right:
  assumes "m_det [[a, b], [c, e]] \<noteq> 0"
  shows "m_mul [[a, b], [c, e]] (m_inv [[a, b], [c, e]]) = [[1, 0], [0, 1]]"
proof -
  from assms have d: "a * e - b * c \<noteq> 0" by (simp add: m_det_def)
  have "a * e / (a * e - b * c) - b * c / (a * e - b * c) = 1"
    using d by (simp add: diff_divide_distrib [symmetric])
  moreover have "c * e / (a * e - b * c) - e * c / (a * e - b * c) = 0"
    by (simp add: mult.commute)
  moreover have "b * a / (a * e - b * c) - a * b / (a * e - b * c) = 0"
    by (simp add: mult.commute)
  moreover have "e * a / (a * e - b * c) - c * b / (a * e - b * c) = 1"
    using d by (simp add: diff_divide_distrib [symmetric] mult.commute)
  ultimately show ?thesis
    by (simp add: m_mul_def m_inv_def m_det_def m_trans_def dot_def algebra_simps)
qed

section \<open>The derived block\<close>

lemma F_of_spec: "F_of dt = F_spec dt"
  by (simp add: F_of_def F_spec_def)

lemma Q_of_spec: "Q_of dt var = Q_spec var dt"
  by (simp add: Q_of_def Q_spec_def Let_def power2_eq_square power3_eq_cube)


lemma ex_state_fields:
  "m_setup ex_state = None" "m_P ex_state = m_startP ex_mdl"
  "m_x ex_state = [[0], [0], [0], [0]]"
  by (simp_all add: ex_state_def new_CONSTVEL_STATE_def)


text \<open>
  C3. As the claim states it, the block is built for the inter-frame interval. The source
  assigns \<^verbatim>\<open>m_ds = 1\<close> in \<^verbatim>\<open>CONSTVEL_STATE::setup\<close> and takes no interval: for a state that
  moves with velocity 1, the prediction of the source is at position 1, the prediction for
  an interval of 2 is at position 2.
\<close>

theorem state_setup_interval_counterexample:
  "map_option m_x1 (m_setup (state_setup 3 (m_R ex_mdl) ex_moving_state))
     \<noteq> Some (m_x1 (derived_spec 2 3 (m_R ex_mdl) (m_P ex_moving_state) (m_x ex_moving_state)))
   \<and> map_option m_x1 (m_setup (state_setup 3 (m_R ex_mdl) ex_moving_state))
       = Some [[1], [1], [0], [0]]
   \<and> m_x1 (derived_spec 2 3 (m_R ex_mdl) (m_P ex_moving_state) (m_x ex_moving_state))
       = [[2], [1], [0], [0]]"
  by (simp add: state_setup_def ex_moving_state_def new_CONSTVEL_STATE_def derived_spec_def
      Let_def F_of_def F_spec_def m_mul_def m_trans_def dot_def)

text \<open>
  C3, amended. For every motion state, process variance and measurement covariance:
  a state that has no derived block yet gets the block of the specification for the fixed
  time step 1, that is \<open>F = [[1,1,0,0],[0,1,0,0],[0,0,1,1],[0,0,0,1]]\<close>,
  \<open>Q = var * [[1/3,1/2,0,0],[1/2,1,0,0],[0,0,1/3,1/2],[0,0,1/2,1]]\<close>,
  \<open>P1 = F P F\<^sup>T + Q\<close>, \<open>S = H P1 H\<^sup>T + R\<close>, \<open>W = P1 H\<^sup>T S\<^sup>-\<^sup>1\<close>,
  \<open>P_next = P1 - W S W\<^sup>T\<close>, \<open>x_pred = F x\<close> and
  \<open>log_coef = - (1.5963597 + ln (det S) / 2)\<close>; a state that has its block keeps it.
\<close>

theorem state_setup_block:
  "state_setup var R st =
     (case m_setup st of
        Some d \<Rightarrow> st
      | None \<Rightarrow> st\<lparr>m_setup := Some (derived_spec 1 var R (m_P st) (m_x st))\<rparr>)"
  by (cases "m_setup st")
     (simp_all add: state_setup_def derived_spec_def Let_def F_of_spec Q_of_spec H_def H_spec_def
        LOG_NORMFACTOR_def)

theorem state_setup_block_witness:
  "state_setup 3 [[1, 0], [0, 1]] ex_state =
     ex_state\<lparr>m_setup := Some (derived_spec 1 3 [[1, 0], [0, 1]] (m_startP ex_mdl)
                                 [[0], [0], [0], [0]])\<rparr>
   \<and> state_setup 3 [[1, 0], [0, 1]] (state_setup 3 [[1, 0], [0, 1]] ex_state)
       = state_setup 3 [[1, 0], [0, 1]] ex_state"
  using state_setup_block [of 3 "[[1, 0], [0, 1]]" ex_state]
    state_setup_block [of 3 "[[1, 0], [0, 1]]" "state_setup 3 [[1, 0], [0, 1]] ex_state"]
  by (simp add: ex_state_fields)

section \<open>Texture correlation\<close>





















section \<open>The measured continuation\<close>



















section \<open>End and continue likelihoods\<close>




section \<open>Texture validation\<close>



section \<open>The scan\<close>

text \<open>
  C2. If the queue of detection batches is empty, \<^verbatim>\<open>scan\<close> returns 0 and the engine is
  unchanged in every member: the current time, the tree list, the group list, the report
  lists, the active list and the first-scan flag among them.
\<close>

theorem scan_empty_queue: "m_reportsQueue s = [] \<Longrightarrow> scan G s = Some (0, s)"
  by (simp add: scan_def)

theorem scan_empty_queue_witness:
  "m_reportsQueue ex_mht = [] \<and> scan ex_steps ex_mht = Some (0, ex_mht)"
proof -
  have q: "m_reportsQueue ex_mht = []" by (simp add: ex_mht_def new_MHT_def)
  from scan_empty_queue [OF q] q show ?thesis by simp
qed

subsection \<open>Members that growing the trees leaves alone\<close>

lemma frame_installReport: "engine_frame (installReport r s) = engine_frame s"
  by (simp add: engine_frame_def installReport_def)

lemma frame_measure_reports: "engine_frame (measure_reports cs s) = engine_frame s"
  by (induction cs arbitrary: s) (simp_all add: frame_installReport, simp add: engine_frame_def)

lemma frame_at_node: "at_node a f s = Some s' \<Longrightarrow> engine_frame s' = engine_frame s"
  by (auto simp: at_node_def engine_frame_def split: option.splits)

lemma frame_childrenForReports:
  "childrenForReports a rs s = Some s' \<Longrightarrow> engine_frame s' = engine_frame s"
proof (induction rs arbitrary: s)
  case Nil
  then show ?case by simp
next
  case (Cons r rs)
  from Cons.prems obtain s1 where
    a: "at_node a (makeChildrenFor (m_modelList s) r) s = Some s1"
    and b: "childrenForReports a rs s1 = Some s'"
    by (auto split: option.splits)
  have "engine_frame s' = engine_frame s1" using b by (rule Cons.IH)
  also have "\<dots> = engine_frame s" using a by (rule frame_at_node)
  finally show ?case .
qed

lemma frame_growActive: "growActive as s = Some s' \<Longrightarrow> engine_frame s' = engine_frame s"
proof (induction as arbitrary: s)
  case Nil
  then show ?case by simp
next
  case (Cons a as)
  from Cons.prems obtain s1 s2 where
    a: "at_node a makeDefaultChildren s = Some s1"
    and b: "childrenForReports a (m_newReportList s1) s1 = Some s2"
    and c: "growActive as s2 = Some s'"
    by (auto split: option.splits)
  have "engine_frame s' = engine_frame s2" using c by (rule Cons.IH)
  also have "\<dots> = engine_frame s1" using b by (rule frame_childrenForReports)
  also have "\<dots> = engine_frame s" using a by (rule frame_at_node)
  finally show ?case .
qed

lemma frame_installTree: "engine_frame (installTree r off s) = engine_frame s"
  by (simp add: engine_frame_def installTree_def Let_def)

lemma frame_newTrees: "newTrees rs s = Some s' \<Longrightarrow> engine_frame s' = engine_frame s"
proof (induction rs arbitrary: s)
  case Nil
  then show ?case by simp
next
  case (Cons r rs)
  from Cons.prems obtain s2 s3 where
    a: "at_node (m_nextAddr s) makeDefaultChildren
          (installTree (new_MDL_ROOT_T_HYPO (m_nextAddr s)) (- 1) (s\<lparr>m_nextAddr := m_nextAddr s + 1\<rparr>))
        = Some s2"
    and b: "at_node (m_nextAddr s) (makeChildrenFor (m_modelList s2) r) s2 = Some s3"
    and c: "newTrees rs s3 = Some s'"
    by (auto simp: Let_def split: option.splits)
  have "engine_frame s' = engine_frame s3" using c by (rule Cons.IH)
  also have "\<dots> = engine_frame s2" using b by (rule frame_at_node)
  also have "\<dots> = engine_frame (installTree (new_MDL_ROOT_T_HYPO (m_nextAddr s)) (- 1)
                                     (s\<lparr>m_nextAddr := m_nextAddr s + 1\<rparr>))"
    using a by (rule frame_at_node)
  also have "\<dots> = engine_frame s"
    by (simp add: frame_installTree) (simp add: engine_frame_def)
  finally show ?case .
qed

lemma frame_measureAndValidate:
  "measureAndValidate cs dT s = Some s' \<Longrightarrow> engine_frame s' = engine_frame s"
  by (auto simp: measureAndValidate_def Let_def frame_measure_reports split: option.splits
      dest!: frame_growActive frame_newTrees)

text \<open>An empty batch on an engine without active nodes and pending reports changes nothing.\<close>

lemma measureAndValidate_empty_batch:
  "m_activeTHypoList s = [] \<Longrightarrow> m_newReportList s = [] \<Longrightarrow>
     measureAndValidate [] dT s = Some s"
  by (simp add: measureAndValidate_def)

text \<open>
  C10. If the queue is not empty and the tree list is empty after \<^verbatim>\<open>measureAndValidate\<close> has
  run on the first batch, \<^verbatim>\<open>scan\<close> returns 0, the value of the idle return. The engine it
  leaves is the one \<^verbatim>\<open>measureAndValidate\<close> left, with the batch taken off the queue, the
  current time incremented, the active list cleared, and the new reports numbered and
  spliced onto the old list. None of the group steps, the pruning or the verification has
  run: the result does not depend on the group steps, the group list and the record of
  verifications are those of the start, and the first-scan flag is not cleared.
\<close>

theorem scan_no_trees:
  assumes "m_reportsQueue s = newReports # queue"
    and "measureAndValidate (c_list newReports) (m_dT newReports) (s\<lparr>m_reportsQueue := queue\<rparr>)
           = Some s1"
    and "m_tTreeList s1 = []"
  shows "scan G s =
           Some (0, s1\<lparr>m_currentTime := m_currentTime s + 1,
                        m_activeTHypoList := [],
                        m_oldReportList :=
                          m_oldReportList s
                          @ map (\<lambda>(rowNum, r). r\<lparr>m_rowNum := int rowNum\<rparr>)
                              (enumerate 0 (m_newReportList s1)),
                        m_newReportList := []\<rparr>)
       \<and> m_reportsQueue s1 = queue \<and> m_isFirstScan s1 = m_isFirstScan s
       \<and> m_groupList s1 = m_groupList s \<and> m_verified s1 = m_verified s"
proof -
  from frame_measureAndValidate [OF assms(2)]
  have fr: "m_isFirstScan s1 = m_isFirstScan s" "m_groupList s1 = m_groupList s"
    "m_currentTime s1 = m_currentTime s" "m_oldReportList s1 = m_oldReportList s"
    "m_reportsQueue s1 = queue" "m_verified s1 = m_verified s"
    by (simp_all add: engine_frame_def)
  have "scan G s =
          Some (0, importNewReports (s1\<lparr>m_currentTime := m_currentTime s1 + 1,
                                         m_activeTHypoList := []\<rparr>))"
    using assms by (simp add: scan_def importNewReports_def)
  then show ?thesis
    by (simp add: importNewReports_def fr)
qed

theorem scan_no_trees_witness:
  "scan ex_steps ex_empty_batch_mht = Some (0, ex_mht\<lparr>m_currentTime := 1\<rparr>)
   \<and> m_isFirstScan (ex_mht\<lparr>m_currentTime := 1\<rparr>) = True"
proof -
  have q: "m_reportsQueue ex_empty_batch_mht = \<lparr>c_list = [], m_dT = 1\<rparr> # []"
    by (simp add: ex_empty_batch_mht_def)
  have e: "ex_empty_batch_mht\<lparr>m_reportsQueue := []\<rparr> = ex_mht"
    by (simp add: ex_empty_batch_mht_def ex_mht_def new_MHT_def)
  have m: "measureAndValidate (c_list \<lparr>c_list = [], m_dT = 1\<rparr>) (m_dT \<lparr>c_list = [], m_dT = 1\<rparr>)
             (ex_empty_batch_mht\<lparr>m_reportsQueue := []\<rparr>) = Some ex_mht"
    unfolding e by (simp add: measureAndValidate_empty_batch ex_mht_def new_MHT_def)
  have t: "m_tTreeList ex_mht = []" by (simp add: ex_mht_def new_MHT_def)
  from scan_no_trees [OF q m t, of ex_steps] show ?thesis
    by (simp add: ex_mht_def new_MHT_def ex_empty_batch_mht_def)
qed

section \<open>Verifying and popping roots\<close>

lemma verifyLastRoot_events:
  assumes "verifiable t"
  shows "verifyLastRoot t out =
           Some (t, out @ (if h_endsTrack (node_info t) \<and> h_mustVerify (node_info t)
                           then List.map_filter verify [node_info t] else []))"
proof (cases t)
  case (Node h cs)
  with assms have "h_mustVerify h \<Longrightarrow> verify h \<noteq> None"
    by (simp add: verifiable_def)
  with Node show ?thesis
    by (auto simp: verifyLastRoot_def List.map_filter_simps)
qed

lemma verifiable_child: "verifiable (Node h cs) \<Longrightarrow> c \<in> set cs \<Longrightarrow> verifiable c"
  by (auto simp: verifiable_def list_all_iff)

lemma verifiable_info: "verifiable (Node h cs) \<Longrightarrow> h_mustVerify h \<Longrightarrow> verify h \<noteq> None"
  by (simp add: verifiable_def)

lemma verifyRoot_events:
  "verifiable t \<Longrightarrow> verifyRoot t out = Some (finalRoot t, out @ rootEvents t)"
proof (induction t out rule: verifyRoot.induct)
  case (1 h c out)
  show ?case
  proof (cases "h_endsTrack h")
    case True
    with verifyLastRoot_events [OF "1.prems", of out] show ?thesis
      by (simp add: rootEvents_def)
  next
    case notEnd: False
    have vc: "verifiable c" using "1.prems" by (rule verifiable_child) simp
    show ?thesis
    proof (cases "h_mustVerify h")
      case True
      with verifiable_info [OF "1.prems"] obtain v where v: "verify h = Some v" by auto
      from "1.IH"(1) [OF notEnd True v vc] show ?thesis
        using notEnd True v by (simp add: rootEvents_def List.map_filter_simps)
    next
      case False
      from "1.IH"(2) [OF notEnd False vc] show ?thesis
        using notEnd False by (simp add: rootEvents_def)
    qed
  qed
qed (simp_all add: verifyLastRoot_events rootEvents_def)

lemma verifyTrees_events:
  "list_all verifiableTree ts \<Longrightarrow>
     verifyTrees ts out = Some (map popTree ts, out @ concat (map treeEvents ts))"
proof (induction ts arbitrary: out)
  case Nil
  then show ?case by simp
next
  case (Cons t ts)
  then have IH: "\<And>out. verifyTrees ts out = Some (map popTree ts, out @ concat (map treeEvents ts))"
    by simp
  show ?case
  proof (cases "t_tree t")
    case None
    then have "treeEvents t = []" "popTree t = t"
      by (simp_all add: popTree_def treeEvents_def)
    with None show ?thesis by (simp add: IH)
  next
    case (Some n)
    with Cons.prems have "verifiable n" by (simp add: verifiableTree_def)
    moreover from Some have "treeEvents t = rootEvents n"
      "popTree t = t\<lparr>t_tree := Some (finalRoot n)\<rparr>"
      by (simp_all add: popTree_def treeEvents_def)
    ultimately show ?thesis
      using Some by (simp add: verifyRoot_events IH)
  qed
qed

lemma ex_tree_verifiable: "list_all verifiableTree (m_tTreeList ex_verify_mht)"
  by (simp add: ex_verify_mht_def verifiableTree_def verifiable_def ex_tree_def verify_def
      ex_root_info_def ex_start_info_def ex_end_info_def new_MDL_ROOT_T_HYPO_def
      new_MDL_START_T_HYPO_def new_MDL_END_T_HYPO_def new_T_HYPO_def)

lemma ex_tree_pop: "finalRoot ex_tree = Node ex_end_info []"
  by (simp add: ex_tree_def ex_root_info_def ex_start_info_def ex_end_info_def
      new_MDL_ROOT_T_HYPO_def new_MDL_START_T_HYPO_def new_MDL_END_T_HYPO_def new_T_HYPO_def)

lemma ex_tree_events:
  "rootEvents ex_tree = [startTrack 0 1 (Some ex_state) (Some 0), endTrack 0 2]"
  by (simp add: rootEvents_def ex_tree_pop)
     (simp add: ex_tree_def ex_root_info_def ex_start_info_def ex_end_info_def
      new_MDL_ROOT_T_HYPO_def new_MDL_START_T_HYPO_def new_MDL_END_T_HYPO_def new_T_HYPO_def
      List.map_filter_simps verify_def ex_report_def)

text \<open>
  C5. \<^verbatim>\<open>verifyTTreeRoots\<close>, on an engine whose trees hold only nodes that can be verified,
  does for every tree what the specification says: while the root has exactly one child
  and does not end the track, the root is removed and the child becomes the root
  (\<open>popTree\<close>); a removed root emits its verification event if and only if it is marked
  must-verify; and the root that is left emits its event if it ends the track and is marked
  must-verify (\<open>treeEvents\<close>). The events are appended tree by tree, in list order.
\<close>

theorem verifyTTreeRoots_events:
  assumes "list_all verifiableTree (m_tTreeList s)"
  shows "verifyTTreeRoots s =
           Some (s\<lparr>m_tTreeList := map popTree (m_tTreeList s),
                   m_verified := m_verified s @ concat (map treeEvents (m_tTreeList s))\<rparr>)"
  by (simp add: verifyTTreeRoots_def verifyTrees_events [OF assms])

theorem verifyTTreeRoots_events_witness:
  "list_all verifiableTree (m_tTreeList ex_verify_mht)
   \<and> verifyTTreeRoots ex_verify_mht =
       Some (ex_verify_mht
               \<lparr>m_tTreeList := [\<lparr>t_tree = Some (Node ex_end_info []), t_id = 0, t_groupId = 1\<rparr>],
                m_verified := [startTrack 0 1 (Some ex_state) (Some 0), endTrack 0 2]\<rparr>)"
proof -
  have t: "m_tTreeList ex_verify_mht = [\<lparr>t_tree = Some ex_tree, t_id = 0, t_groupId = 1\<rparr>]"
    "m_verified ex_verify_mht = []"
    by (simp_all add: ex_verify_mht_def ex_mht_def new_MHT_def)
  from verifyTTreeRoots_events [OF ex_tree_verifiable] ex_tree_verifiable show ?thesis
    by (simp add: t popTree_def treeEvents_def ex_tree_pop ex_tree_events)
qed

section \<open>New tracks\<close>

lemma ex_later_fields:
  "m_isFirstScan ex_later_mht = False" "m_currentTime ex_later_mht = 1"
  "m_activeTHypoList ex_later_mht = []" "m_newReportList ex_later_mht = []"
  "m_tTreeList ex_later_mht = []" "m_nextAddr ex_later_mht = 5"
  "m_modelList ex_later_mht = [ex_mdl]" "m_lastTrackIdUsed ex_later_mht = 1"
  "m_nextNewTTree ex_later_mht = None" "m_mhtFalarmLogLikelihood ex_later_mht = 0"
  by (simp_all add: ex_later_mht_def ex_mht_def new_MHT_def)

lemma start_state_always:
  "getNewState mdl 0 None (Some report) =
     Some (None, Some (new_CONSTVEL_STATE mdl (r_x report) 0 (r_y report) 0 (m_textureInfo report)
                         (m_startP mdl) (m_startLogLikelihood mdl) 0))"
  by (simp add: getNewState_def getNextState_def)

lemma root_children_for:
  assumes "h_class (node_info p) = MDL_ROOT_T_HYPO"
  shows "makeChildrenFor [mdl] report a p =
           Some (a + 2,
                 installChild (installChild p (new_MDL_FALARM_T_HYPO a report))
                   (new_MDL_START_T_HYPO (a + 1)
                      (new_CONSTVEL_STATE mdl (r_x report) 0 (r_y report) 0 (m_textureInfo report)
                         (m_startP mdl) (m_startLogLikelihood mdl) 0)
                      report))"
  using assms
  by (simp add: makeChildrenFor_def Let_def beginNewStates_def start_state_always)

text \<open>
  C1. The claim: after the first scan no start node is created for any report. On an
  engine whose first scan is over (the first-scan flag is cleared, the time is 1) and that
  receives a batch of one detection, \<^verbatim>\<open>measureAndValidate\<close> makes one new tree, and the
  children of its root are a start node linked to the report, a false-alarm node linked to
  the report, and a dummy node. Neither \<^verbatim>\<open>beginNewStates\<close>, which returns 1, nor
  \<^verbatim>\<open>MDL_ROOT_T_HYPO::makeChildrenFor\<close> reads the flag.
\<close>

theorem start_child_after_first_scan:
  "m_isFirstScan ex_later_mht = False
   \<and> map_option
        (\<lambda>s'. map (\<lambda>t. map_option
                           (\<lambda>n. map (\<lambda>c. (h_class (node_info c), h_reportLink (node_info c)))
                                    (node_children n))
                           (t_tree t))
                   (m_tTreeList s'))
        (measureAndValidate [ex_corner] 1 (ex_later_mht\<lparr>m_reportsQueue := []\<rparr>))
     = Some [Some [(MDL_START_T_HYPO, Some 5), (MDL_FALARM_T_HYPO, Some 5),
                   (MDL_DUMMY_T_HYPO, None)]]"
  by (simp add: ex_later_fields measureAndValidate_def installReport_def Let_def installTree_def
      at_node_def find_in_trees_def replace_in_trees_def makeDefaultChildren_def
      new_MDL_ROOT_T_HYPO_def new_T_HYPO_def installChild_def root_children_for
      new_MDL_DUMMY_T_HYPO_def new_MDL_FALARM_T_HYPO_def new_MDL_START_T_HYPO_def)

section \<open>What the operations change in states and reports\<close>











end
